theory Spec2Isabelle
  imports Complex_Main "HOL-Library.Multiset"
begin

section \<open>Values: float64 cells of a pandas frame\<close>

text \<open>
  The scorer of \<^verbatim>\<open>scorer.py\<close> computes on pandas columns of dtype float64.  A cell is
  modelled as an exact real number or one of the three non-finite values of IEEE 754.
  Rounding, overflow of finite arithmetic and the sign of zero are not modelled: the
  finite part of the arithmetic is the arithmetic of the reals.
\<close>

datatype npfloat = Num real | PInf | NInf | NaN

datatype py_error = KeyError string | IndexError | IntCastingNaNError

fun fneg :: "npfloat \<Rightarrow> npfloat" where
  "fneg (Num x) = Num (- x)"
| "fneg PInf = NInf"
| "fneg NInf = PInf"
| "fneg NaN = NaN"

fun fadd :: "npfloat \<Rightarrow> npfloat \<Rightarrow> npfloat" where
  "fadd NaN _ = NaN"
| "fadd _ NaN = NaN"
| "fadd (Num x) (Num y) = Num (x + y)"
| "fadd PInf NInf = NaN"
| "fadd NInf PInf = NaN"
| "fadd PInf _ = PInf"
| "fadd _ PInf = PInf"
| "fadd NInf _ = NInf"
| "fadd _ NInf = NInf"

definition fsub :: "npfloat \<Rightarrow> npfloat \<Rightarrow> npfloat" where
  "fsub a b = fadd a (fneg b)"

text \<open>The sign of a finite operand decides the sign of an infinite product or quotient.\<close>

definition signed_inf :: "bool \<Rightarrow> npfloat" where
  "signed_inf positive = (if positive then PInf else NInf)"

fun fmul :: "npfloat \<Rightarrow> npfloat \<Rightarrow> npfloat" where
  "fmul NaN _ = NaN"
| "fmul _ NaN = NaN"
| "fmul (Num x) (Num y) = Num (x * y)"
| "fmul (Num x) PInf = (if x = 0 then NaN else signed_inf (0 < x))"
| "fmul (Num x) NInf = (if x = 0 then NaN else signed_inf (x < 0))"
| "fmul PInf (Num y) = (if y = 0 then NaN else signed_inf (0 < y))"
| "fmul NInf (Num y) = (if y = 0 then NaN else signed_inf (y < 0))"
| "fmul PInf PInf = PInf"
| "fmul NInf NInf = PInf"
| "fmul PInf NInf = NInf"
| "fmul NInf PInf = NInf"

text \<open>
  numpy's true division does not raise on a zero divisor: \<open>0 / 0\<close> is NaN and
  \<open>x / 0\<close> is an infinity with the sign of \<open>x\<close>.
\<close>

fun fdiv :: "npfloat \<Rightarrow> npfloat \<Rightarrow> npfloat" where
  "fdiv NaN _ = NaN"
| "fdiv _ NaN = NaN"
| "fdiv (Num x) (Num y) =
     (if y = 0 then (if x = 0 then NaN else signed_inf (0 < x)) else Num (x / y))"
| "fdiv (Num x) PInf = Num 0"
| "fdiv (Num x) NInf = Num 0"
| "fdiv PInf (Num y) = signed_inf (0 \<le> y)"
| "fdiv NInf (Num y) = signed_inf (y < 0)"
| "fdiv PInf _ = NaN"
| "fdiv NInf _ = NaN"

text \<open>Comparison \<open>a < b\<close>; every comparison with NaN is false.\<close>

fun flt :: "npfloat \<Rightarrow> npfloat \<Rightarrow> bool" where
  "flt NaN _ = False"
| "flt _ NaN = False"
| "flt (Num x) (Num y) = (x < y)"
| "flt NInf NInf = False"
| "flt NInf _ = True"
| "flt _ NInf = False"
| "flt PInf _ = False"
| "flt _ PInf = True"

definition fgt :: "npfloat \<Rightarrow> npfloat \<Rightarrow> bool" where
  "fgt a b = flt b a"

text \<open>
  \<^verbatim>\<open>Series.min()\<close> and \<^verbatim>\<open>Series.max()\<close> skip NaN cells; on a series with no
  cell left (in particular the empty series) the result is NaN.
\<close>

definition series_min :: "npfloat list \<Rightarrow> npfloat" where
  "series_min xs =
     (case filter (\<lambda>x. x \<noteq> NaN) xs of
        [] \<Rightarrow> NaN
      | y # ys \<Rightarrow> fold (\<lambda>a m. if flt a m then a else m) ys y)"

definition series_max :: "npfloat list \<Rightarrow> npfloat" where
  "series_max xs =
     (case filter (\<lambda>x. x \<noteq> NaN) xs of
        [] \<Rightarrow> NaN
      | y # ys \<Rightarrow> fold (\<lambda>a m. if flt m a then a else m) ys y)"

text \<open>\<^verbatim>\<open>DataFrame.sum(axis=1)\<close> adds the cells of a row, NaN cells counting as 0.\<close>

definition nansum :: "npfloat list \<Rightarrow> npfloat" where
  "nansum xs = fold (\<lambda>x s. if x = NaN then s else fadd s x) xs (Num 0)"

text \<open>
  \<^verbatim>\<open>Series.astype(int)\<close> truncates every finite cell towards zero and raises
  \<^verbatim>\<open>IntCastingNaNError\<close> ("Cannot convert non-finite values (NA or inf) to integer")
  as soon as one cell is NaN or infinite.
\<close>

definition trunc :: "real \<Rightarrow> int" where
  "trunc x = (if 0 \<le> x then \<lfloor>x\<rfloor> else \<lceil>x\<rceil>)"

fun astype_int :: "npfloat list \<Rightarrow> py_error + int list" where
  "astype_int [] = Inr []"
| "astype_int (Num x # xs) =
     (case astype_int xs of Inl e \<Rightarrow> Inl e | Inr ys \<Rightarrow> Inr (trunc x # ys))"
| "astype_int (_ # xs) = Inl IntCastingNaNError"

section \<open>Feature records and the batch scorer\<close>

text \<open>
  A feature record: the dictionary built by \<^verbatim>\<open>calculate_features\<close> and, once the
  dictionaries are collected in \<^verbatim>\<open>features_df\<close>, a row of that frame with the index
  \<^verbatim>\<open>wallet_address\<close>.  Five columns hold Python integers.  The cell
  \<^verbatim>\<open>avg_eth_sent\<close> has the type \<open>'a\<close>: a float64 value that may be NaN where the
  extractor produces it, and a finite real in the frame the scorer is given (the main
  program applies \<^verbatim>\<open>fillna(0)\<close> in between).  The frame \<^verbatim>\<open>features_df\<close> is given by
  the list of the records it is built from, \<^verbatim>\<open>pd.DataFrame(all_features)\<close> with the
  index \<^verbatim>\<open>wallet_address\<close>: one row for every record, in order.
\<close>

record 'a FeatureRecord =
  wallet_address :: string
  wallet_age_days :: int
  tx_count :: int
  avg_eth_sent :: 'a
  unique_recipients :: int
  mock_liquidations :: int
  mock_high_ltv_borrows :: int

datatype feature =
  WalletAgeDays | TxCount | AvgEthSent | UniqueRecipients | MockLiquidations | MockHighLtvBorrows

text \<open>The cell of a row in a column, as the float64 value the arithmetic of pandas sees.\<close>

fun cell :: "feature \<Rightarrow> real FeatureRecord \<Rightarrow> real" where
  "cell WalletAgeDays r = of_int (wallet_age_days r)"
| "cell TxCount r = of_int (tx_count r)"
| "cell AvgEthSent r = avg_eth_sent r"
| "cell UniqueRecipients r = of_int (unique_recipients r)"
| "cell MockLiquidations r = of_int (mock_liquidations r)"
| "cell MockHighLtvBorrows r = of_int (mock_high_ltv_borrows r)"

text \<open>The key of a feature in the dictionaries, which is the label of its column.\<close>

fun column_name :: "feature \<Rightarrow> string" where
  "column_name WalletAgeDays = ''wallet_age_days''"
| "column_name TxCount = ''tx_count''"
| "column_name AvgEthSent = ''avg_eth_sent''"
| "column_name UniqueRecipients = ''unique_recipients''"
| "column_name MockLiquidations = ''mock_liquidations''"
| "column_name MockHighLtvBorrows = ''mock_high_ltv_borrows''"

text \<open>
  A frame built from a list of dictionaries has a column for every key that occurs in
  some dictionary.  Every feature record has all six keys, so a frame of at least one
  record has the six feature columns; the frame of zero records, \<^verbatim>\<open>pd.DataFrame([])\<close>,
  has no column at all.
\<close>

definition frame_columns :: "real FeatureRecord list \<Rightarrow> feature list" where
  "frame_columns features_df =
     (if features_df = [] then []
      else [WalletAgeDays, TxCount, AvgEthSent, UniqueRecipients,
            MockLiquidations, MockHighLtvBorrows])"

text \<open>\<^verbatim>\<open>features_df[feature]\<close>: one column of the frame, when the frame has it.\<close>

definition column :: "real FeatureRecord list \<Rightarrow> feature \<Rightarrow> npfloat list" where
  "column features_df f = map (\<lambda>r. Num (cell f r)) features_df"

definition weights :: "(feature \<times> real) list" where
  "weights =
     [(WalletAgeDays, - (1 / 10)),
      (TxCount, 15 / 100),
      (AvgEthSent, 2 / 10),
      (UniqueRecipients, 25 / 100),
      (MockLiquidations, 5 / 10),
      (MockHighLtvBorrows, 4 / 10)]"

text \<open>
  The cell of \<^verbatim>\<open>normalized_df[feature]\<close> in the row \<open>r\<close>: min-max scaling when the
  column's range is positive, the constant 0 otherwise.
\<close>

definition normalized ::
  "real FeatureRecord list \<Rightarrow> feature \<Rightarrow> real FeatureRecord \<Rightarrow> npfloat" where
  "normalized features_df f r =
     (let min_val = series_min (column features_df f);
          max_val = series_max (column features_df f)
      in if fgt (fsub max_val min_val) (Num 0)
         then fdiv (fsub (Num (cell f r)) min_val) (fsub max_val min_val)
         else Num 0)"

definition raw_score :: "real FeatureRecord list \<Rightarrow> npfloat list" where
  "raw_score features_df =
     map (\<lambda>r. nansum (map (\<lambda>(f, w). fmul (normalized features_df f r) (Num w)) weights))
       features_df"

text \<open>
  \<^verbatim>\<open>calculate_risk_scores\<close>.  The loop over \<^verbatim>\<open>weights.keys()\<close> reads the column
  \<^verbatim>\<open>features_df[feature]\<close> of every weighted feature, in the order of the weight
  table; reading a column that the frame does not have raises \<^verbatim>\<open>KeyError\<close> with the
  label of that column, so the first weighted feature without a column decides the
  error.  When all columns are there, the result series pairs every index entry with
  its integer score, in the order of the rows.
\<close>

definition calculate_risk_scores ::
  "real FeatureRecord list \<Rightarrow> py_error + (string \<times> int) list" where
  "calculate_risk_scores features_df =
     (case find (\<lambda>(f, w). f \<notin> set (frame_columns features_df)) weights of
        Some (f, w) \<Rightarrow> Inl (KeyError (column_name f))
      | None \<Rightarrow>
          (let raw = raw_score features_df;
               min_score = series_min raw;
               max_score = series_max raw;
               final_score =
                 map (\<lambda>x. fdiv (fmul (Num 1000) (fsub x min_score))
                            (fsub max_score min_score)) raw
           in case astype_int final_score of
                Inl e \<Rightarrow> Inl e
              | Inr scores \<Rightarrow> Inr (zip (map wallet_address features_df) scores)))"

section \<open>The feature extractor\<close>

text \<open>
  One entry of the transaction list returned by the ledger API: a dictionary.  A key
  that the dictionary does not have is \<open>None\<close>.  The four keys that
  \<^verbatim>\<open>calculate_features\<close> reads are \<^verbatim>\<open>from\<close>, \<^verbatim>\<open>to\<close>, \<^verbatim>\<open>value\<close> (the amount
  in Wei, written in decimal) and \<^verbatim>\<open>timeStamp\<close> (seconds since the epoch).
\<close>

record transaction =
  tx_from :: "string option"
  tx_to :: "string option"
  tx_value :: "int option"
  tx_timeStamp :: "int option"

text \<open>\<^verbatim>\<open>str.lower()\<close> on the ASCII letters; addresses are hexadecimal ASCII.\<close>

definition lower_char :: "char \<Rightarrow> char" where
  "lower_char c =
     (let n = (of_char c :: nat) in if 65 \<le> n \<and> n \<le> 90 then char_of (n + 32) else c)"

definition lower :: "string \<Rightarrow> string" where
  "lower s = map lower_char s"

text \<open>
  \<^verbatim>\<open>pd.DataFrame(transactions)\<close> has a column for every key that occurs in some
  dictionary; a dictionary without the key leaves a NaN cell.  Reading a column that no
  dictionary has raises \<^verbatim>\<open>KeyError\<close>.
\<close>

definition has_column :: "(transaction \<Rightarrow> 'b option) \<Rightarrow> transaction list \<Rightarrow> bool" where
  "has_column key transactions = list_ex (\<lambda>t. key t \<noteq> None) transactions"

text \<open>\<^verbatim>\<open>Series.mean()\<close> skips NaN cells, and is NaN when no cell is left.\<close>

definition series_mean :: "real list \<Rightarrow> npfloat" where
  "series_mean xs = (if xs = [] then NaN else Num (sum_list xs / real (length xs)))"

text \<open>
  The rows of \<^verbatim>\<open>sent_tx\<close>: the sender, lower-cased, equals the lower-cased wallet
  address.  A NaN sender cell compares unequal.
\<close>

definition sent_tx :: "transaction list \<Rightarrow> string \<Rightarrow> transaction list" where
  "sent_tx transactions address =
     filter (\<lambda>t. case tx_from t of None \<Rightarrow> False | Some a \<Rightarrow> lower a = lower address)
       transactions"

text \<open>The two placeholder flags, read off the last and the second-to-last character.\<close>

definition liquidation_flag :: "string \<Rightarrow> int" where
  "liquidation_flag address = (if last address \<in> set ''012'' then 1 else 0)"

definition high_ltv_flag :: "string \<Rightarrow> int" where
  "high_ltv_flag address =
     (if address ! (length address - 2) \<in> set ''abc'' then 1 else 0)"

text \<open>
  \<^verbatim>\<open>calculate_features\<close>.  The clock \<^verbatim>\<open>datetime.now()\<close> is the parameter \<open>now\<close>, in
  microseconds since the epoch; \<^verbatim>\<open>.days\<close> of a time difference is its floor in whole
  days.  The branches follow the statements of the source in their order: the four
  column reads, each of which can raise \<^verbatim>\<open>KeyError\<close>, then the two index reads of the
  address, each of which can raise \<^verbatim>\<open>IndexError\<close>.
\<close>

definition calculate_features ::
  "transaction list \<Rightarrow> string \<Rightarrow> int \<Rightarrow> py_error + npfloat FeatureRecord" where
  "calculate_features transactions address now =
     (if transactions = [] then
        Inr \<lparr>wallet_address = address, wallet_age_days = 0, tx_count = 0,
             avg_eth_sent = Num 0, unique_recipients = 0,
             mock_liquidations = 0, mock_high_ltv_borrows = 0\<rparr>
      else if \<not> has_column tx_value transactions then Inl (KeyError ''value'')
      else if \<not> has_column tx_timeStamp transactions then Inl (KeyError ''timeStamp'')
      else if \<not> has_column tx_from transactions then Inl (KeyError ''from'')
      else if \<not> has_column tx_to transactions then Inl (KeyError ''to'')
      else if address = [] then Inl IndexError
      else if length address < 2 then Inl IndexError
      else
        let first_tx_date = Min (set (List.map_filter tx_timeStamp transactions));
            sent = sent_tx transactions address
        in Inr \<lparr>wallet_address = address,
                wallet_age_days = (now - first_tx_date * 1000000) div (86400 * 1000000),
                tx_count = int (length transactions),
                avg_eth_sent =
                  (if sent \<noteq> []
                   then series_mean (map (\<lambda>v. real_of_int v / 10 ^ 18)
                                      (List.map_filter tx_value sent))
                   else Num 0),
                unique_recipients = int (length (remdups (List.map_filter tx_to sent))),
                mock_liquidations = liquidation_flag address,
                mock_high_ltv_borrows = high_ltv_flag address\<rparr>)"

text \<open>
  The reading of the specification's "transaction lacking required fields": a
  transaction is well formed when it has all four keys.  This predicate does not occur
  in the source; it states what the specification asks to be skipped.
\<close>

definition has_required_fields :: "transaction \<Rightarrow> bool" where
  "has_required_fields t =
     (tx_from t \<noteq> None \<and> tx_to t \<noteq> None \<and> tx_value t \<noteq> None \<and> tx_timeStamp t \<noteq> None)"

section \<open>The scorer over the reals\<close>

text \<open>
  The quantities that the scorer computes, written over the reals.  They are used to
  state what \<^const>\<open>calculate_risk_scores\<close> returns; the lemmas below prove that the
  float64 computation above yields exactly these values.  \<open>nrm\<close> is the min-max scaled
  cell, \<open>rawr\<close> the weighted sum of a row, \<open>raw_min\<close> and \<open>raw_max\<close> the extremes of
  the weighted sums over the frame, and \<open>rescaled\<close> the score of a row before truncation.
\<close>

definition nrm :: "real FeatureRecord list \<Rightarrow> feature \<Rightarrow> real FeatureRecord \<Rightarrow> real" where
  "nrm df f r =
     (if df \<noteq> [] \<and> 0 < Max (cell f ` set df) - Min (cell f ` set df)
      then (cell f r - Min (cell f ` set df)) / (Max (cell f ` set df) - Min (cell f ` set df))
      else 0)"

definition rawr :: "real FeatureRecord list \<Rightarrow> real FeatureRecord \<Rightarrow> real" where
  "rawr df r = (\<Sum>(f, w)\<leftarrow>weights. nrm df f r * w)"

definition raw_min :: "real FeatureRecord list \<Rightarrow> real" where
  "raw_min df = Min (rawr df ` set df)"

definition raw_max :: "real FeatureRecord list \<Rightarrow> real" where
  "raw_max df = Max (rawr df ` set df)"

definition rescaled :: "real FeatureRecord list \<Rightarrow> real FeatureRecord \<Rightarrow> real" where
  "rescaled df r = 1000 * (rawr df r - raw_min df) / (raw_max df - raw_min df)"

section \<open>Example inputs\<close>

text \<open>
  The two wallets of the specification's example.  The specification names them A and
  B; these names stand for their addresses.
\<close>

definition wallet_A :: "real FeatureRecord" where
  "wallet_A = \<lparr>wallet_address = ''A'', wallet_age_days = 0, tx_count = 0, avg_eth_sent = 0,
     unique_recipients = 0, mock_liquidations = 0, mock_high_ltv_borrows = 0\<rparr>"

definition wallet_B :: "real FeatureRecord" where
  "wallet_B = \<lparr>wallet_address = ''B'', wallet_age_days = 100, tx_count = 50, avg_eth_sent = 2,
     unique_recipients = 10, mock_liquidations = 1, mock_high_ltv_borrows = 1\<rparr>"

text \<open>
  Three transactions of the wallet \<^verbatim>\<open>0xab12\<close>: one that it sends (the sender is
  written in upper case), one that it receives, and one that it sends and that has no
  \<^verbatim>\<open>value\<close> key.
\<close>

definition tx_sent :: transaction where
  "tx_sent = \<lparr>tx_from = Some ''0xAB12'', tx_to = Some ''0xcc'',
     tx_value = Some 2000000000000000000, tx_timeStamp = Some 1600000000\<rparr>"

definition tx_received :: transaction where
  "tx_received = \<lparr>tx_from = Some ''0xdd'', tx_to = Some ''0xab12'',
     tx_value = Some 1000000000000000000, tx_timeStamp = Some 1500000000\<rparr>"

definition tx_no_value :: transaction where
  "tx_no_value = \<lparr>tx_from = Some ''0xab12'', tx_to = Some ''0xee'',
     tx_value = None, tx_timeStamp = Some 1650000000\<rparr>"

section \<open>Evaluating the float64 operations on finite cells\<close>

lemma fold_min_Num:
  "fold (\<lambda>a m. if flt a m then a else m) (map Num ys) (Num y) = Num (fold min ys y)"
  by (induction ys arbitrary: y) (auto simp: min_def)

lemma fold_max_Num:
  "fold (\<lambda>a m. if flt m a then a else m) (map Num ys) (Num y) = Num (fold max ys y)"
  by (induction ys arbitrary: y) (auto simp: max_def)

lemma filter_Num: "filter (\<lambda>x. x \<noteq> NaN) (map Num xs) = map Num xs"
  by (induction xs) auto

lemma series_min_Num:
  assumes "xs \<noteq> []"
  shows "series_min (map Num xs) = Num (Min (set xs))"
proof -
  from assms obtain y ys where xs: "xs = y # ys" by (cases xs) auto
  have "series_min (map Num xs) = Num (fold min ys y)"
    unfolding series_min_def filter_Num by (simp add: xs fold_min_Num)
  also have "fold min ys y = Min (set xs)"
    unfolding xs by (simp only: Min.set_eq_fold)
  finally show ?thesis .
qed

lemma series_max_Num:
  assumes "xs \<noteq> []"
  shows "series_max (map Num xs) = Num (Max (set xs))"
proof -
  from assms obtain y ys where xs: "xs = y # ys" by (cases xs) auto
  have "series_max (map Num xs) = Num (fold max ys y)"
    unfolding series_max_def filter_Num by (simp add: xs fold_max_Num)
  also have "fold max ys y = Max (set xs)"
    unfolding xs by (simp only: Max.set_eq_fold)
  finally show ?thesis .
qed

lemma series_min_Nil: "series_min [] = NaN"
  by (simp add: series_min_def)

lemma series_max_Nil: "series_max [] = NaN"
  by (simp add: series_max_def)

lemma scale_Num:
  "(if fgt (fsub (Num mx) (Num mn)) (Num 0)
    then fdiv (fsub (Num x) (Num mn)) (fsub (Num mx) (Num mn)) else Num 0)
   = Num (if 0 < mx - mn then (x - mn) / (mx - mn) else 0)"
  by (simp add: fsub_def fgt_def)

lemma column_Num: "column df f = map Num (map (cell f) df)"
  by (simp add: column_def)

lemma normalized_eq: "normalized df f r = Num (nrm df f r)"
proof (cases "df = []")
  case True
  then show ?thesis
    by (simp add: normalized_def nrm_def column_def series_min_Nil series_max_Nil fsub_def fgt_def)
next
  case False
  then have ne: "map (cell f) df \<noteq> []" by simp
  show ?thesis
    unfolding normalized_def column_Num series_min_Num[OF ne] series_max_Num[OF ne] Let_def
      scale_Num nrm_def
    using False by (simp only: set_map if_True simp_thms)
qed

lemma nansum_fold_Num:
  "fold (\<lambda>x s. if x = NaN then s else fadd s x) (map Num xs) (Num a) = Num (a + sum_list xs)"
  by (induction xs arbitrary: a) (auto simp: algebra_simps)

lemma nansum_Num: "nansum (map Num xs) = Num (sum_list xs)"
  by (simp add: nansum_def nansum_fold_Num)

lemma raw_score_eq: "raw_score df = map (\<lambda>r. Num (rawr df r)) df"
proof -
  have "nansum (map (\<lambda>(f, w). fmul (normalized df f r) (Num w)) weights) = Num (rawr df r)" for r
  proof -
    have "map (\<lambda>(f, w). fmul (normalized df f r) (Num w)) weights
          = map Num (map (\<lambda>(f, w). nrm df f r * w) weights)"
      by (simp add: normalized_eq case_prod_unfold)
    then show ?thesis by (simp only: nansum_Num rawr_def)
  qed
  then show ?thesis by (simp add: raw_score_def)
qed

lemma astype_int_Num: "astype_int (map Num xs) = Inr (map trunc xs)"
  by (induction xs) auto

lemma series_raw:
  assumes "df \<noteq> []"
  shows "series_min (raw_score df) = Num (raw_min df)"
    and "series_max (raw_score df) = Num (raw_max df)"
proof -
  have eq: "raw_score df = map Num (map (rawr df) df)"
    by (simp add: raw_score_eq)
  have ne: "map (rawr df) df \<noteq> []" using assms by simp
  show "series_min (raw_score df) = Num (raw_min df)"
    unfolding eq series_min_Num[OF ne] raw_min_def by (simp only: set_map)
  show "series_max (raw_score df) = Num (raw_max df)"
    unfolding eq series_max_Num[OF ne] raw_max_def by (simp only: set_map)
qed

lemma final_cell:
  "fdiv (fmul (Num 1000) (fsub (Num x) (Num mn))) (fsub (Num mx) (Num mn)) =
     (if mx = mn then (if x = mn then NaN else signed_inf (mn < x))
      else Num (1000 * (x - mn) / (mx - mn)))"
  by (simp add: fsub_def)

section \<open>What the scorer returns\<close>

text \<open>
  On the frame of zero records the first column read raises \<^verbatim>\<open>KeyError\<close>.  On a
  frame whose weighted sums are not all equal the scorer returns the truncated rescaled
  score of every row.  On a non-empty frame whose weighted sums are all equal, every
  cell of \<^verbatim>\<open>final_score\<close> is \<open>0 / 0\<close>, that is NaN, and \<^verbatim>\<open>astype(int)\<close> raises.
\<close>

lemma calculate_risk_scores_Nil:
  "calculate_risk_scores [] = Inl (KeyError ''wallet_age_days'')"
  by (simp add: calculate_risk_scores_def frame_columns_def weights_def)

lemma calculate_risk_scores_nonempty:
  assumes "df \<noteq> []"
  shows "calculate_risk_scores df =
     (let raw = raw_score df;
          min_score = series_min raw;
          max_score = series_max raw;
          final_score =
            map (\<lambda>x. fdiv (fmul (Num 1000) (fsub x min_score))
                       (fsub max_score min_score)) raw
      in case astype_int final_score of
           Inl e \<Rightarrow> Inl e
         | Inr scores \<Rightarrow> Inr (zip (map wallet_address df) scores))"
proof -
  have "find (\<lambda>(f, w). f \<notin> set (frame_columns df)) weights = None"
    using assms by (simp add: frame_columns_def weights_def)
  then show ?thesis
    by (simp only: calculate_risk_scores_def option.case)
qed

lemma calculate_risk_scores_spread:
  assumes "df \<noteq> []" and "raw_max df \<noteq> raw_min df"
  shows "calculate_risk_scores df =
           Inr (map (\<lambda>r. (wallet_address r, trunc (rescaled df r))) df)"
proof -
  have "map (\<lambda>x. fdiv (fmul (Num 1000) (fsub x (Num (raw_min df))))
                    (fsub (Num (raw_max df)) (Num (raw_min df)))) (raw_score df)
        = map Num (map (rescaled df) df)"
    using assms(2) by (simp add: raw_score_eq final_cell rescaled_def)
  then show ?thesis
    unfolding calculate_risk_scores_nonempty[OF assms(1)] Let_def series_raw[OF assms(1)]
    by (simp only: astype_int_Num sum.case) (simp add: zip_map_map zip_same_conv_map)
qed

lemma calculate_risk_scores_flat:
  assumes "df \<noteq> []" and "raw_max df = raw_min df"
  shows "calculate_risk_scores df = Inl IntCastingNaNError"
proof -
  from assms(1) obtain r rs where df: "df = r # rs" by (cases df) auto
  have fin: "finite (rawr df ` set df)" by simp
  have mem: "rawr df r \<in> rawr df ` set df" by (simp add: df)
  have "raw_min df \<le> rawr df r" "rawr df r \<le> raw_max df"
    unfolding raw_min_def raw_max_def using fin mem by (rule Min_le, rule Max_ge)
  with assms(2) have r: "rawr df r = raw_min df" by simp
  have "raw_score df = Num (raw_min df) # map (\<lambda>r. Num (rawr df r)) rs"
    unfolding raw_score_eq using r by (simp add: df)
  then show ?thesis
    unfolding calculate_risk_scores_nonempty[OF assms(1)] Let_def series_raw[OF assms(1)]
    using assms(2) by (simp add: final_cell)
qed

lemma rescaled_bounds:
  assumes "r \<in> set df" and "raw_max df \<noteq> raw_min df"
  shows "0 \<le> rescaled df r" and "rescaled df r \<le> 1000"
proof -
  have fin: "finite (rawr df ` set df)" by simp
  have mem: "rawr df r \<in> rawr df ` set df" using assms(1) by simp
  have lo: "raw_min df \<le> rawr df r" unfolding raw_min_def using fin mem by (rule Min_le)
  have hi: "rawr df r \<le> raw_max df" unfolding raw_max_def using fin mem by (rule Max_ge)
  from lo hi assms(2) have pos: "0 < raw_max df - raw_min df" by simp
  show "0 \<le> rescaled df r"
    unfolding rescaled_def using lo pos by simp
  have "1000 * (rawr df r - raw_min df) \<le> 1000 * (raw_max df - raw_min df)"
    using hi by simp
  then show "rescaled df r \<le> 1000"
    unfolding rescaled_def by (simp only: pos_divide_le_eq[OF pos])
qed

lemma trunc_bounds: "0 \<le> x \<Longrightarrow> x \<le> 1000 \<Longrightarrow> 0 \<le> trunc x \<and> trunc x \<le> 1000"
  unfolding trunc_def by (simp add: floor_le_iff le_floor_iff)

lemma nrm_set_cong: "set df' = set df \<Longrightarrow> nrm df' = nrm df"
proof -
  assume s: "set df' = set df"
  then have "(df' \<noteq> []) = (df \<noteq> [])" by (metis set_empty)
  with s show ?thesis by (intro ext) (simp only: nrm_def)
qed

lemma rawr_set_cong:
  assumes "set df' = set df"
  shows "rawr df' = rawr df"
  by (intro ext) (simp only: rawr_def nrm_set_cong[OF assms])

lemma rescaled_set_cong:
  assumes "set df' = set df"
  shows "raw_min df' = raw_min df" and "raw_max df' = raw_max df" and "rescaled df' = rescaled df"
proof -
  show a: "raw_min df' = raw_min df"
    by (simp only: raw_min_def rawr_set_cong[OF assms] assms)
  show b: "raw_max df' = raw_max df"
    by (simp only: raw_max_def rawr_set_cong[OF assms] assms)
  show "rescaled df' = rescaled df"
    by (intro ext) (simp only: rescaled_def rawr_set_cong[OF assms] a b)
qed

lemmas scorer_defs = calculate_risk_scores_def frame_columns_def raw_score_def
  normalized_def column_def
  series_min_def series_max_def nansum_def weights_def fsub_def fgt_def trunc_def
  wallet_A_def wallet_B_def signed_inf_def

lemma single_row_flat: "raw_max [r] = raw_min [r]"
  by (simp add: raw_max_def raw_min_def)

lemma single_row_raises: "calculate_risk_scores [r] = Inl IntCastingNaNError"
  by (rule calculate_risk_scores_flat) (simp_all add: single_row_flat)

section \<open>Properties of the batch scorer\<close>

text \<open>
  Claim C1.  For every frame, every score that \<^verbatim>\<open>calculate_risk_scores\<close> returns is an
  integer between 0 and 1000, both included.  The scores are integers by the type of
  the result; the bounds hold for every entry of a returned series.
\<close>

theorem scores_in_range:
  assumes "calculate_risk_scores df = Inr scores" and "(w, s) \<in> set scores"
  shows "0 \<le> s \<and> s \<le> 1000"
proof (cases "df = []")
  case True
  with assms show ?thesis by (simp add: calculate_risk_scores_Nil)
next
  case ne: False
  show ?thesis
  proof (cases "raw_max df = raw_min df")
    case True
    with ne assms(1) show ?thesis by (simp add: calculate_risk_scores_flat)
  next
    case False
    from assms(1) have "scores = map (\<lambda>r. (wallet_address r, trunc (rescaled df r))) df"
      by (simp add: calculate_risk_scores_spread[OF ne False])
    with assms(2) obtain r where r: "r \<in> set df" and s: "s = trunc (rescaled df r)"
      by auto
    from rescaled_bounds[OF r False] show ?thesis
      unfolding s by (rule trunc_bounds)
  qed
qed

theorem scores_in_range_witness:
  "calculate_risk_scores [wallet_A, wallet_B] = Inr [(''A'', 0), (''B'', 1000)]
   \<and> (''B'', 1000) \<in> set [(''A'', 0), (''B'', 1000 :: int)]
   \<and> (0::int) \<le> 1000 \<and> (1000::int) \<le> 1000"
proof -
  have v: "calculate_risk_scores [wallet_A, wallet_B] = Inr [(''A'', 0), (''B'', 1000)]"
    by (simp add: scorer_defs)
  have m: "(''B'', 1000) \<in> set [(''A'', 0), (''B'', 1000 :: int)]" by simp
  from scores_in_range[OF v m] v m show ?thesis by simp
qed

text \<open>
  Claim C2.  The claim asks that a frame whose weighted sums are all equal, such as a
  frame of one row, is given the score 0 for every wallet.  The scorer does not do so:
  on the frame that holds only wallet B every cell of \<^verbatim>\<open>final_score\<close> is \<open>0 / 0\<close>, and
  the conversion to integers raises.  The lemma \<open>single_row_raises\<close> above shows the
  same for every frame of one row, and \<open>calculate_risk_scores_flat\<close> for every
  non-empty frame with equal weighted sums.
\<close>

theorem single_wallet_batch_raises:
  "calculate_risk_scores [wallet_B] = Inl IntCastingNaNError"
  by (simp add: scorer_defs)



text \<open>
  Claim C5.  When the minimum of a feature column equals its maximum, the normalised
  cell of that feature is 0 in every row of the frame.  The statement holds for each of
  the six features, all of which carry a weight.
\<close>

theorem constant_column_normalized_zero:
  assumes "series_min (column df f) = series_max (column df f)" and "r \<in> set df"
  shows "normalized df f r = Num 0"
proof -
  from assms(2) have ne: "map (cell f) df \<noteq> []" by auto
  from assms(1) have "Max (set (map (cell f) df)) = Min (set (map (cell f) df))"
    unfolding column_Num series_min_Num[OF ne] series_max_Num[OF ne] by simp
  then show ?thesis
    unfolding normalized_def column_Num series_min_Num[OF ne] series_max_Num[OF ne] Let_def
    by (simp add: fsub_def fgt_def)
qed

theorem constant_column_normalized_zero_witness:
  "series_min (column [wallet_A, wallet_B\<lparr>tx_count := 0\<rparr>] TxCount)
     = series_max (column [wallet_A, wallet_B\<lparr>tx_count := 0\<rparr>] TxCount)
   \<and> wallet_A \<in> set [wallet_A, wallet_B\<lparr>tx_count := 0\<rparr>]
   \<and> normalized [wallet_A, wallet_B\<lparr>tx_count := 0\<rparr>] TxCount wallet_A = Num 0"
  using constant_column_normalized_zero
    [of "[wallet_A, wallet_B\<lparr>tx_count := 0\<rparr>]" TxCount wallet_A]
  by (simp add: column_def series_min_def series_max_def wallet_A_def wallet_B_def)

text \<open>
  Claim C6.  Reordering the rows of the frame does not change the scores.  A frame
  \<open>df'\<close> with the same rows as \<open>df\<close>, in any order, raises exactly when \<open>df\<close> does, and
  otherwise returns the same pairs of address and score, each as often as \<open>df\<close> does.
  When the addresses of the frame are distinct, the two results are the same mapping
  from addresses to scores.
\<close>

theorem scores_order_independent:
  assumes "mset df' = mset df"
  shows "map_sum id mset (calculate_risk_scores df') = map_sum id mset (calculate_risk_scores df)
    \<and> (distinct (map wallet_address df) \<longrightarrow>
         map_sum id map_of (calculate_risk_scores df')
           = map_sum id map_of (calculate_risk_scores df))"
proof (cases "df = []")
  case True
  with assms have "df' = []" by simp
  with True show ?thesis by simp
next
  case ne: False
  with assms have ne': "df' \<noteq> []" by auto
  from assms have s: "set df' = set df" by (rule mset_eq_setD)
  note c = rescaled_set_cong[OF s]
  show ?thesis
  proof (cases "raw_max df = raw_min df")
    case True
    then have "raw_max df' = raw_min df'" by (simp add: c)
    then show ?thesis
      by (simp add: calculate_risk_scores_flat ne ne' True)
  next
    case False
    then have F': "raw_max df' \<noteq> raw_min df'" by (simp add: c)
    let ?g = "\<lambda>r. (wallet_address r, trunc (rescaled df r))"
    have e: "calculate_risk_scores df = Inr (map ?g df)"
      by (rule calculate_risk_scores_spread[OF ne False])
    have e': "calculate_risk_scores df' = Inr (map ?g df')"
      using calculate_risk_scores_spread[OF ne' F'] by (simp only: c)
    have m: "mset (map ?g df') = mset (map ?g df)"
      using assms by (metis mset_map)
    have "map_of (map ?g df') = map_of (map ?g df)" if d: "distinct (map wallet_address df)"
    proof -
      have "mset (map wallet_address df') = mset (map wallet_address df)"
        using assms by (metis mset_map)
      then have d': "distinct (map wallet_address df')"
        using d by (metis mset_eq_imp_distinct_iff)
      have f: "map fst (map ?g df) = map wallet_address df"
        "map fst (map ?g df') = map wallet_address df'" by simp_all
      have "set (map ?g df') = set (map ?g df)" using s by simp
      then show ?thesis
        using d d' f by (metis map_of_inject_set)
    qed
    with m show ?thesis unfolding e e' by simp
  qed
qed

theorem scores_order_independent_witness:
  "mset [wallet_B, wallet_A] = mset [wallet_A, wallet_B]
   \<and> distinct (map wallet_address [wallet_A, wallet_B])
   \<and> map_sum id map_of (calculate_risk_scores [wallet_B, wallet_A])
       = map_sum id map_of (calculate_risk_scores [wallet_A, wallet_B])
   \<and> calculate_risk_scores [wallet_A, wallet_B] = Inr [(''A'', 0), (''B'', 1000)]"
proof -
  have h: "mset [wallet_B, wallet_A] = mset [wallet_A, wallet_B]" by (simp add: add.commute)
  have d: "distinct (map wallet_address [wallet_A, wallet_B])"
    by (simp add: wallet_A_def wallet_B_def)
  have v: "calculate_risk_scores [wallet_A, wallet_B] = Inr [(''A'', 0), (''B'', 1000)]"
    by (simp add: scorer_defs)
  from scores_order_independent[OF h] d h v show ?thesis by blast
qed

text \<open>
  Claim C7.  On the frame of the two example wallets the scorer gives wallet A the
  score 0 and wallet B the score 1000.
\<close>

theorem example_two_wallets:
  "calculate_risk_scores [wallet_A, wallet_B] = Inr [(''A'', 0), (''B'', 1000)]"
  by (simp add: scorer_defs)

section \<open>Properties of the feature extractor\<close>

lemma length_map_filter_le: "length (List.map_filter f xs) \<le> length xs"
  by (simp add: List.map_filter_def)

lemma length_sent_tx_le: "length (sent_tx transactions address) \<le> length transactions"
  by (simp add: sent_tx_def)

lemma unique_recipients_le_length:
  "length (remdups (List.map_filter tx_to (sent_tx transactions address))) \<le> length transactions"
proof -
  have "length (remdups (List.map_filter tx_to (sent_tx transactions address)))
        \<le> length (List.map_filter tx_to (sent_tx transactions address))"
    by (rule length_remdups_leq)
  also have "\<dots> \<le> length (sent_tx transactions address)"
    by (rule length_map_filter_le)
  also have "\<dots> \<le> length transactions"
    by (rule length_sent_tx_le)
  finally show ?thesis .
qed

lemma sent_tx_empty:
  assumes "\<forall>t\<in>set transactions. \<forall>a. tx_from t = Some a \<longrightarrow> lower a \<noteq> lower address"
  shows "sent_tx transactions address = []"
  unfolding sent_tx_def using assms by (auto simp: filter_empty_conv split: option.splits)

lemmas extractor_defs = calculate_features_def has_column_def sent_tx_def lower_def
  lower_char_def series_mean_def liquidation_flag_def high_ltv_flag_def List.map_filter_def
  tx_sent_def tx_received_def tx_no_value_def has_required_fields_def
  char_of_def bit_Suc_0_iff

text \<open>
  Claim C3.  The claim asks that on the empty transaction list the two placeholder
  flags are still computed from the address.  The extractor returns its default record
  before it reads the address: for the address \<^verbatim>\<open>0xa0\<close> both flags are 0, although the
  last character is in \<^verbatim>\<open>012\<close> and the character before it is in \<^verbatim>\<open>abc\<close>.
\<close>

theorem empty_history_flags_counterexample:
  "calculate_features [] ''0xa0'' 0 =
     Inr \<lparr>wallet_address = ''0xa0'', wallet_age_days = 0, tx_count = 0,
          avg_eth_sent = Num 0, unique_recipients = 0,
          mock_liquidations = 0, mock_high_ltv_borrows = 0\<rparr>
   \<and> liquidation_flag ''0xa0'' = 1 \<and> high_ltv_flag ''0xa0'' = 1"
  by (simp add: calculate_features_def liquidation_flag_def high_ltv_flag_def)

text \<open>
  Claim C3, as the extractor behaves.  For every address, the empty transaction list
  gives the record in which all six features, the two flags included, are 0.
\<close>

theorem empty_history_all_zero:
  "calculate_features [] address now =
     Inr \<lparr>wallet_address = address, wallet_age_days = 0, tx_count = 0,
          avg_eth_sent = Num 0, unique_recipients = 0,
          mock_liquidations = 0, mock_high_ltv_borrows = 0\<rparr>"
  by (simp add: calculate_features_def)

text \<open>
  Claim C8.  In every record that the extractor returns, the number of unique
  recipients is at most the number of transactions.
\<close>

theorem unique_recipients_le_tx_count:
  assumes "calculate_features transactions address now = Inr r"
  shows "unique_recipients r \<le> tx_count r"
proof (cases "transactions = []")
  case True
  with assms show ?thesis by (auto simp: calculate_features_def)
next
  case False
  with assms have
    "unique_recipients r = int (length (remdups (List.map_filter tx_to (sent_tx transactions address))))"
    "tx_count r = int (length transactions)"
    by (auto simp: calculate_features_def Let_def split: if_splits)
  then show ?thesis
    using unique_recipients_le_length[of transactions address] by simp
qed

theorem unique_recipients_le_tx_count_witness:
  "calculate_features [tx_sent, tx_no_value] ''0xab12'' 1700000000000000 =
     Inr \<lparr>wallet_address = ''0xab12'', wallet_age_days = 1157, tx_count = 2,
          avg_eth_sent = Num 2, unique_recipients = 2,
          mock_liquidations = 1, mock_high_ltv_borrows = 0\<rparr>
   \<and> (2::int) \<le> 2"
proof -
  have v: "calculate_features [tx_sent, tx_no_value] ''0xab12'' 1700000000000000 =
     Inr \<lparr>wallet_address = ''0xab12'', wallet_age_days = 1157, tx_count = 2,
          avg_eth_sent = Num 2, unique_recipients = 2,
          mock_liquidations = 1, mock_high_ltv_borrows = 0\<rparr>"
    by (simp add: extractor_defs)
  from unique_recipients_le_tx_count[OF v] v show ?thesis by simp
qed

text \<open>
  Claim C9.  The claim asks that a transaction lacking a required field is skipped and
  the record computed from the remaining transactions.  The extractor has no such
  step.  A list whose only transaction has no \<^verbatim>\<open>value\<close> key raises \<^verbatim>\<open>KeyError\<close>, where
  skipping would give the default record; and next to a complete transaction, the
  incomplete one is still counted in \<^verbatim>\<open>tx_count\<close>.
\<close>

theorem malformed_skipped_counterexample:
  "\<not> has_required_fields tx_no_value
   \<and> calculate_features [tx_no_value] ''0xab12'' 1700000000000000 = Inl (KeyError ''value'')
   \<and> calculate_features (filter has_required_fields [tx_no_value]) ''0xab12'' 1700000000000000 =
       Inr \<lparr>wallet_address = ''0xab12'', wallet_age_days = 0, tx_count = 0,
            avg_eth_sent = Num 0, unique_recipients = 0,
            mock_liquidations = 0, mock_high_ltv_borrows = 0\<rparr>
   \<and> map_sum id tx_count (calculate_features [tx_sent, tx_no_value] ''0xab12'' 1700000000000000)
       = Inr 2
   \<and> map_sum id tx_count
        (calculate_features (filter has_required_fields [tx_sent, tx_no_value]) ''0xab12''
           1700000000000000)
       = Inr 1"
  by (simp add: extractor_defs)

text \<open>
  Claim C9, as the extractor behaves.  When each of the four keys occurs in at least
  one transaction of a non-empty list, and the address has at least two characters, the
  extractor returns a record and raises nothing; the record counts every transaction
  of the list in \<^verbatim>\<open>tx_count\<close>, those lacking a field included.
\<close>

theorem malformed_counted_not_skipped:
  assumes "transactions \<noteq> []"
    and "has_column tx_value transactions" and "has_column tx_timeStamp transactions"
    and "has_column tx_from transactions" and "has_column tx_to transactions"
    and "2 \<le> length address"
  shows "\<exists>r. calculate_features transactions address now = Inr r
             \<and> tx_count r = int (length transactions)"
proof -
  from assms(6) have "address \<noteq> []" "\<not> length address < 2" by auto
  with assms(1-5) show ?thesis
    by (simp add: calculate_features_def Let_def)
qed

theorem malformed_counted_not_skipped_witness:
  "[tx_sent, tx_no_value] \<noteq> []
   \<and> has_column tx_value [tx_sent, tx_no_value] \<and> has_column tx_timeStamp [tx_sent, tx_no_value]
   \<and> has_column tx_from [tx_sent, tx_no_value] \<and> has_column tx_to [tx_sent, tx_no_value]
   \<and> 2 \<le> length ''0xab12'' \<and> \<not> has_required_fields tx_no_value
   \<and> (\<exists>r. calculate_features [tx_sent, tx_no_value] ''0xab12'' 1700000000000000 = Inr r
          \<and> tx_count r = int (length [tx_sent, tx_no_value]))"
proof -
  have a: "[tx_sent, tx_no_value] \<noteq> []" by simp
  have b: "has_column tx_value [tx_sent, tx_no_value]"
    "has_column tx_timeStamp [tx_sent, tx_no_value]"
    "has_column tx_from [tx_sent, tx_no_value]"
    "has_column tx_to [tx_sent, tx_no_value]"
    by (simp_all add: has_column_def tx_sent_def tx_no_value_def)
  have c: "2 \<le> length ''0xab12''" by simp
  have d: "\<not> has_required_fields tx_no_value"
    by (simp add: has_required_fields_def tx_no_value_def)
  from malformed_counted_not_skipped[OF a b c, of 1700000000000000] a b c d
  show ?thesis by blast
qed

text \<open>
  Claim C10.  For a non-empty transaction list in which no sender equals the wallet
  address, compared without regard to case, every record that the extractor returns has
  \<^verbatim>\<open>avg_eth_sent\<close> equal to 0.
\<close>

theorem receive_only_avg_zero:
  assumes "transactions \<noteq> []"
    and "\<forall>t\<in>set transactions. \<forall>a. tx_from t = Some a \<longrightarrow> lower a \<noteq> lower address"
    and "calculate_features transactions address now = Inr r"
  shows "avg_eth_sent r = Num 0"
  using assms(1,3) sent_tx_empty[OF assms(2)]
  by (auto simp: calculate_features_def Let_def split: if_splits)

theorem receive_only_avg_zero_witness:
  "[tx_received] \<noteq> []
   \<and> tx_from tx_received = Some ''0xdd'' \<and> lower ''0xdd'' \<noteq> lower ''0xab12''
   \<and> calculate_features [tx_received] ''0xab12'' 1700000000000000 =
       Inr \<lparr>wallet_address = ''0xab12'', wallet_age_days = 2314, tx_count = 1,
            avg_eth_sent = Num 0, unique_recipients = 0,
            mock_liquidations = 1, mock_high_ltv_borrows = 0\<rparr>"
proof -
  have n: "[tx_received] \<noteq> []" by simp
  have f: "tx_from tx_received = Some ''0xdd''"
    by (simp add: tx_received_def)
  have l: "lower ''0xdd'' \<noteq> lower ''0xab12''"
    by (simp add: lower_def)
  from f l have h:
    "\<forall>t\<in>set [tx_received]. \<forall>a. tx_from t = Some a \<longrightarrow> lower a \<noteq> lower ''0xab12''"
    by simp
  have v: "calculate_features [tx_received] ''0xab12'' 1700000000000000 =
       Inr \<lparr>wallet_address = ''0xab12'', wallet_age_days = 2314, tx_count = 1,
            avg_eth_sent = Num 0, unique_recipients = 0,
            mock_liquidations = 1, mock_high_ltv_borrows = 0\<rparr>"
    by (simp add: extractor_defs)
  from receive_only_avg_zero[OF n h v] n f l v show ?thesis by simp
qed

end
